theory Spec2Isabelle
  imports Complex_Main
begin

section \<open>Data model: tables, columns and cell values\<close>

text \<open>
  A pandas dataframe is an ordered list of named columns. Every column (a Series) carries a
  dtype and a list of cells, one per row; a null cell (None, NaN, NaT) is \<open>None\<close>. Numbers are
  exact rationals: the float rounding of the library is outside this model, and infinities
  are left out.
\<close>

datatype dtype = Int64 | Float64 | Object | StringDtype | Category | Datetime64 | Bool | OtherDtype

datatype val = Num rat | Str string | Ts int | Flag bool

type_synonym cell = "val option"

record series =
  dtype :: dtype
  cells :: "cell list"

type_synonym dataframe = "(string \<times> series) list"

datatype py_error = FileNotFoundError string | ParseFailure | KeyError string
  | ZeroDivisionError | CastError string

text \<open>\<open>df.columns\<close> and \<open>len(df)\<close>: all columns of a dataframe have the same length, and a
  dataframe without columns has no rows.\<close>

definition columns :: "dataframe \<Rightarrow> string list" where
  "columns df = map fst df"

definition len_df :: "dataframe \<Rightarrow> nat" where
  "len_df df = (case df of [] \<Rightarrow> 0 | (c, s) # rest \<Rightarrow> length (cells s))"

text \<open>\<open>df[col] = s\<close>: an existing column is replaced where it stands, a new one is appended.\<close>

definition set_col :: "string \<Rightarrow> series \<Rightarrow> dataframe \<Rightarrow> dataframe" where
  "set_col col s df =
     (if col \<in> set (columns df) then map (\<lambda>(n, t). if n = col then (n, s) else (n, t)) df
      else df @ [(col, s)])"

text \<open>\<open>Series.dropna()\<close> and \<open>Series.nunique()\<close> (distinct non-null values).\<close>

definition dropna :: "cell list \<Rightarrow> val list" where
  "dropna cs = map the (filter (\<lambda>c. c \<noteq> None) cs)"

definition nunique :: "series \<Rightarrow> int" where
  "nunique s = int (length (remdups (dropna (cells s))))"

text \<open>The dtype probes of \<open>pandas.api.types\<close> used by the classifier. The source asks
  \<open>is_string_dtype\<close> only after \<open>dtype == 'object'\<close> has failed, so its answer on an object
  column (which newer versions of the library infer from the elements) is never read.\<close>

definition is_datetime64_any_dtype :: "series \<Rightarrow> bool" where
  "is_datetime64_any_dtype s = (dtype s = Datetime64)"

definition is_string_dtype :: "series \<Rightarrow> bool" where
  "is_string_dtype s = (dtype s = Object \<or> dtype s = StringDtype)"

definition is_categorical_dtype :: "series \<Rightarrow> bool" where
  "is_categorical_dtype s = (dtype s = Category)"

definition is_object_or_string :: "series \<Rightarrow> bool" where
  "is_object_or_string s = (dtype s = Object \<or> is_string_dtype s)"

definition is_int64_or_float64 :: "series \<Rightarrow> bool" where
  "is_int64_or_float64 s = (dtype s = Int64 \<or> dtype s = Float64)"

section \<open>Strict date parsing\<close>

text \<open>
  \<open>pd.to_datetime(column, errors='raise')\<close>. The library's parser of one value is a parameter
  \<open>parse\<close> (\<open>None\<close>: the value is not a date). A null cell becomes NaT and never fails; the
  first value that does not parse raises, and then no converted column exists.
\<close>

fun parse_cell :: "(val \<Rightarrow> int option) \<Rightarrow> cell \<Rightarrow> cell option" where
  "parse_cell parse None = Some None"
| "parse_cell parse (Some v) = (case parse v of None \<Rightarrow> None | Some t \<Rightarrow> Some (Some (Ts t)))"

fun parse_cells :: "(val \<Rightarrow> int option) \<Rightarrow> cell list \<Rightarrow> cell list option" where
  "parse_cells parse [] = Some []"
| "parse_cells parse (c # cs) =
     (case parse_cell parse c of
        None \<Rightarrow> None
      | Some d \<Rightarrow> (case parse_cells parse cs of None \<Rightarrow> None | Some ds \<Rightarrow> Some (d # ds)))"

definition to_datetime :: "(val \<Rightarrow> int option) \<Rightarrow> series \<Rightarrow> py_error + series" where
  "to_datetime parse s =
     (case parse_cells parse (cells s) of
        None \<Rightarrow> Inl ParseFailure
      | Some ds \<Rightarrow> Inr \<lparr>dtype = Datetime64, cells = ds\<rparr>)"

section \<open>The column classifier: \<open>EDA_Pipeline.__init__\<close>\<close>

record eda =
  self_df :: dataframe
  target_col :: "string option"
  categorical_threshold :: int
  high_cardinality_threshold :: int
  datetime_cols :: "string list"
  numerical_cols :: "string list"
  categorical_cols :: "string list"
  high_cardinality_cols :: "string list"

text \<open>
  The first loop (auto-detect datetime columns) walks the columns of the caller's table;
  its state is the working copy \<open>self.df\<close> and the list \<open>self.datetime_cols\<close>. The
  \<open>try ... except: pass\<close> around the parse is the \<open>Inl\<close> branch: nothing is stored.
\<close>

fun detect_datetime ::
  "(val \<Rightarrow> int option) \<Rightarrow> dataframe \<Rightarrow> dataframe \<times> string list \<Rightarrow> dataframe \<times> string list" where
  "detect_datetime parse [] st = st"
| "detect_datetime parse ((col, s) # rest) (sdf, dts) =
     (if is_datetime64_any_dtype s then detect_datetime parse rest (sdf, dts @ [col])
      else if dtype s = Object \<or> is_string_dtype s then
        (case to_datetime parse s of
           Inr parsed \<Rightarrow> detect_datetime parse rest (set_col col parsed sdf, dts @ [col])
         | Inl e \<Rightarrow> detect_datetime parse rest (sdf, dts))
      else detect_datetime parse rest (sdf, dts))"

text \<open>\<open>df.select_dtypes(include=['int64', 'float64']).columns.tolist()\<close>, the removal of the
  target (\<open>list.remove\<close> drops the first occurrence) and of the datetime columns.\<close>

definition select_numeric :: "dataframe \<Rightarrow> string list" where
  "select_numeric df = map fst (filter (\<lambda>(n, s). is_int64_or_float64 s) df)"

definition remove_target :: "string option \<Rightarrow> string list \<Rightarrow> string list" where
  "remove_target tgt cols =
     (case tgt of None \<Rightarrow> cols | Some t \<Rightarrow> (if t \<in> set cols then remove1 t cols else cols))"

definition detect_numerical :: "dataframe \<Rightarrow> string option \<Rightarrow> string list \<Rightarrow> string list" where
  "detect_numerical df tgt dts =
     filter (\<lambda>col. col \<notin> set dts) (remove_target tgt (select_numeric df))"

text \<open>The second loop (detect categorical): its state is the pair of lists
  \<open>self.categorical_cols\<close> and \<open>self.high_cardinality_cols\<close>.\<close>

fun detect_categorical ::
  "string option \<Rightarrow> int \<Rightarrow> int \<Rightarrow> string list \<Rightarrow> dataframe \<Rightarrow> string list \<times> string list
     \<Rightarrow> string list \<times> string list" where
  "detect_categorical tgt ct hct dts [] st = st"
| "detect_categorical tgt ct hct dts ((col, s) # rest) (cats, highs) =
     (if Some col = tgt \<or> col \<in> set dts then detect_categorical tgt ct hct dts rest (cats, highs)
      else
        (let n_unique = nunique s;
             is_low_cardinality_numeric = (is_int64_or_float64 s \<and> n_unique \<le> ct)
         in if is_categorical_dtype s \<or> is_object_or_string s \<or> is_low_cardinality_numeric then
              (if n_unique \<le> hct then detect_categorical tgt ct hct dts rest (cats @ [col], highs)
               else detect_categorical tgt ct hct dts rest (cats, highs @ [col]))
            else detect_categorical tgt ct hct dts rest (cats, highs)))"

definition EDA_init ::
  "(val \<Rightarrow> int option) \<Rightarrow> dataframe \<Rightarrow> string option \<Rightarrow> int \<Rightarrow> int \<Rightarrow> eda" where
  "EDA_init parse df tgt ct hct =
     (let (sdf, dts) = detect_datetime parse df (df, []);
          nums = detect_numerical df tgt dts;
          (cats, highs) = detect_categorical tgt ct hct dts df ([], [])
      in \<lparr>self_df = sdf, target_col = tgt, categorical_threshold = ct,
          high_cardinality_threshold = hct, datetime_cols = dts, numerical_cols = nums,
          categorical_cols = cats, high_cardinality_cols = highs\<rparr>)"

text \<open>
  Predicates used to state the classifier's properties. \<open>all_parse\<close>: every non-null value
  of the column parses as a date. \<open>coerce\<close>: the column of parsed dates. \<open>is_text\<close>: the column
  is text-typed (object or string dtype). \<open>qualifies\<close>: the first loop lists the column as
  datetime. \<open>cat_family\<close>: the second loop treats the column as a categorical candidate.
\<close>

definition all_parse :: "(val \<Rightarrow> int option) \<Rightarrow> series \<Rightarrow> bool" where
  "all_parse parse s =
     (\<forall>c \<in> set (cells s). case c of None \<Rightarrow> True | Some v \<Rightarrow> parse v \<noteq> None)"

definition coerce :: "(val \<Rightarrow> int option) \<Rightarrow> series \<Rightarrow> series" where
  "coerce parse s = \<lparr>dtype = Datetime64,
     cells = map (\<lambda>c. case c of None \<Rightarrow> None | Some v \<Rightarrow> Some (Ts (the (parse v)))) (cells s)\<rparr>"

definition is_text :: "series \<Rightarrow> bool" where
  "is_text s = (dtype s = Object \<or> dtype s = StringDtype)"

definition qualifies :: "(val \<Rightarrow> int option) \<Rightarrow> series \<Rightarrow> bool" where
  "qualifies parse s = (dtype s = Datetime64 \<or> (is_text s \<and> all_parse parse s))"

definition cat_family :: "int \<Rightarrow> series \<Rightarrow> bool" where
  "cat_family ct s =
     (dtype s = Category \<or> is_text s \<or> (is_int64_or_float64 s \<and> nunique s \<le> ct))"

text \<open>A small date parser for the worked examples: it knows two day strings (as days since
  1970-01-01) and passes timestamps through.\<close>

definition sample_parse :: "val \<Rightarrow> int option" where
  "sample_parse v =
     (case v of
        Str x \<Rightarrow> (if x = ''2024-01-01'' then Some 19723
                  else if x = ''2024-01-02'' then Some 19724 else None)
      | Ts t \<Rightarrow> Some t
      | Num r \<Rightarrow> None
      | Flag b \<Rightarrow> None)"

text \<open>A table of three rows for the worked examples: a low-cardinality integer column, a
  float column, a text column of dates with a null, a text column with one value that is not
  a date, and a boolean column.\<close>

definition sample_table :: dataframe where
  "sample_table =
     [(''score'', \<lparr>dtype = Int64, cells = [Some (Num 1), Some (Num 2), Some (Num 1)]\<rparr>),
      (''price'', \<lparr>dtype = Float64, cells = [Some (Num 10), Some (Num 20), Some (Num 30)]\<rparr>),
      (''when'', \<lparr>dtype = Object, cells = [Some (Str ''2024-01-01''), None, Some (Str ''2024-01-02'')]\<rparr>),
      (''note'', \<lparr>dtype = Object, cells = [Some (Str ''2024-01-01''), Some (Str ''late''), None]\<rparr>),
      (''paid'', \<lparr>dtype = Bool, cells = [Some (Flag True), Some (Flag False), Some (Flag True)]\<rparr>)]"

section \<open>The report driver: overview and univariate sections\<close>

text \<open>
  Percentages are exact rationals; \<open>round2\<close> is rounding to two decimals, half to even, on the
  exact value (\<open>.round(2)\<close> and the \<open>:.2f\<close> format). Charts, \<open>describe()\<close>, skewness and
  kurtosis are not modelled: they compute nothing that the statements below read.
\<close>

definition round_half_even :: "rat \<Rightarrow> int" where
  "round_half_even r =
     (let f = \<lfloor>r\<rfloor>; d = r - of_int f
      in if d < 1 / 2 then f else if 1 / 2 < d then f + 1 else if even f then f else f + 1)"

definition round2 :: "rat \<Rightarrow> rat" where
  "round2 r = of_int (round_half_even (r * 100)) / 100"

definition percent :: "nat \<Rightarrow> nat \<Rightarrow> rat" where
  "percent k n = of_nat k / of_nat n * 100"

text \<open>A \<open>for\<close> loop over a list whose body may raise: the first error ends the loop.\<close>

fun for_each :: "('a \<Rightarrow> py_error + 'b) \<Rightarrow> 'a list \<Rightarrow> py_error + 'b list" where
  "for_each f [] = Inr []"
| "for_each f (x # xs) =
     (case f x of
        Inl e \<Rightarrow> Inl e
      | Inr y \<Rightarrow> (case for_each f xs of Inl e \<Rightarrow> Inl e | Inr ys \<Rightarrow> Inr (y # ys)))"

subsection \<open>\<open>data_overview\<close>\<close>






subsection \<open>\<open>univariate_numerical\<close>\<close>

fun num_of :: "cell \<Rightarrow> rat option" where
  "num_of (Some (Num r)) = Some r"
| "num_of c = None"

definition nums :: "series \<Rightarrow> rat list" where
  "nums s = List.map_filter num_of (cells s)"

text \<open>\<open>Series.quantile(q)\<close> with the default linear interpolation; NaN (\<open>None\<close>) when the column
  has no value.\<close>

definition quantile :: "rat list \<Rightarrow> rat \<Rightarrow> rat option" where
  "quantile xs q =
     (let ys = sort xs; n = length ys
      in if n = 0 then None
         else (let pos = q * of_nat (n - 1); lo = nat \<lfloor>pos\<rfloor>; frac = pos - of_nat lo
               in if lo + 1 < n then Some (ys ! lo + frac * (ys ! (lo + 1) - ys ! lo))
                  else Some (ys ! lo)))"

text \<open>The row mask \<open>(col < Q1 - 1.5*IQR) | (col > Q3 + 1.5*IQR)\<close>: a comparison with NaN is
  false.\<close>

definition is_outlier :: "rat option \<Rightarrow> rat option \<Rightarrow> cell \<Rightarrow> bool" where
  "is_outlier Q1 Q3 c =
     (case (Q1, Q3, num_of c) of
        (Some q1, Some q3, Some x) \<Rightarrow>
          (let IQR = q3 - q1 in x < q1 - 3 / 2 * IQR \<or> q3 + 3 / 2 * IQR < x)
      | _ \<Rightarrow> False)"

record num_profile =
  np_Q1 :: "rat option"
  np_Q3 :: "rat option"
  np_outliers :: nat
  np_outliers_pct :: rat

text \<open>\<open>len(outliers)/len(self.df)*100\<close> divides two Python integers: it raises on a table
  without rows.\<close>

definition numerical_profile :: "nat \<Rightarrow> series \<Rightarrow> py_error + num_profile" where
  "numerical_profile n s =
     (let Q1 = quantile (nums s) (1 / 4);
          Q3 = quantile (nums s) (3 / 4);
          outliers = length (filter (is_outlier Q1 Q3) (cells s))
      in if n = 0 then Inl ZeroDivisionError
         else Inr \<lparr>np_Q1 = Q1, np_Q3 = Q3, np_outliers = outliers,
                   np_outliers_pct = round2 (percent outliers n)\<rparr>)"

definition get_col :: "dataframe \<Rightarrow> string \<Rightarrow> py_error + series" where
  "get_col df col = (case map_of df col of None \<Rightarrow> Inl (KeyError col) | Some s \<Rightarrow> Inr s)"

definition univariate_numerical :: "eda \<Rightarrow> py_error + (string \<times> num_profile) list" where
  "univariate_numerical e =
     (if numerical_cols e = [] then Inr []
      else for_each
             (\<lambda>col. case get_col (self_df e) col of
                       Inl err \<Rightarrow> Inl err
                     | Inr s \<Rightarrow> (case numerical_profile (len_df (self_df e)) s of
                                   Inl err \<Rightarrow> Inl err
                                 | Inr pr \<Rightarrow> Inr (col, pr)))
             (numerical_cols e))"

subsection \<open>\<open>univariate_categorical\<close>\<close>












section \<open>The type caster: \<open>cast_data_types\<close>\<close>

text \<open>
  A declared type is the special name \<open>'datetime'\<close> or a dtype handed to \<open>astype\<close>. The
  library's \<open>Series.astype\<close> is a parameter; it may raise. The caller's dataframe is mutated in
  place, so the run returns the dataframe as the call leaves it, the exception if one
  escaped, and the lines printed.
\<close>

datatype cast_to = Datetime | Dtype dtype

datatype line = Header string | TypeLine string dtype

definition dtypes :: "dataframe \<Rightarrow> (string \<times> dtype) list" where
  "dtypes df = map (\<lambda>(c, s). (c, dtype s)) df"

definition cast_column ::
  "(val \<Rightarrow> int option) \<Rightarrow> (dtype \<Rightarrow> series \<Rightarrow> py_error + series) \<Rightarrow> cast_to \<Rightarrow> series
     \<Rightarrow> py_error + series" where
  "cast_column parse astype t s =
     (case t of Datetime \<Rightarrow> to_datetime parse s | Dtype d \<Rightarrow> astype d s)"

fun cast_loop ::
  "(val \<Rightarrow> int option) \<Rightarrow> (dtype \<Rightarrow> series \<Rightarrow> py_error + series) \<Rightarrow> (string \<times> cast_to) list
     \<Rightarrow> dataframe \<Rightarrow> dataframe \<times> py_error option" where
  "cast_loop parse astype [] df = (df, None)"
| "cast_loop parse astype ((column, t) # rest) df =
     (case get_col df column of
        Inl e \<Rightarrow> (df, Some e)
      | Inr s \<Rightarrow>
          (case cast_column parse astype t s of
             Inl e \<Rightarrow> (df, Some e)
           | Inr converted \<Rightarrow> cast_loop parse astype rest (set_col column converted df)))"

record cast_run =
  df_after :: dataframe
  raised :: "py_error option"
  printed :: "line list"

definition cast_data_types ::
  "(val \<Rightarrow> int option) \<Rightarrow> (dtype \<Rightarrow> series \<Rightarrow> py_error + series) \<Rightarrow> dataframe
     \<Rightarrow> (string \<times> cast_to) list \<Rightarrow> cast_run" where
  "cast_data_types parse astype df type_mapping =
     (let before_types = dtypes df;
          (df', err) = cast_loop parse astype type_mapping df
      in case err of
           Some e \<Rightarrow> \<lparr>df_after = df', raised = Some e, printed = []\<rparr>
         | None \<Rightarrow>
             (let after_types = dtypes df'
              in \<lparr>df_after = df', raised = None,
                  printed = Header ''Data Types Before:'' # map (\<lambda>(c, d). TypeLine c d) before_types
                            @ Header ''Data Types After:'' # map (\<lambda>(c, d). TypeLine c d) after_types\<rparr>))"

text \<open>For the statement on the caster: \<open>cast_fails\<close> says that the cast of a column raises
  \<open>e\<close> on a dataframe (the column is absent, or its conversion raises); \<open>converted_in\<close> says
  that a listed column of \<open>df\<close> was converted as declared and \<open>df'\<close> holds the result.\<close>

definition cast_fails ::
  "(val \<Rightarrow> int option) \<Rightarrow> (dtype \<Rightarrow> series \<Rightarrow> py_error + series) \<Rightarrow> dataframe \<Rightarrow> string
     \<Rightarrow> cast_to \<Rightarrow> py_error \<Rightarrow> bool" where
  "cast_fails parse astype df column t e =
     (get_col df column = Inl e
      \<or> (\<exists>s. get_col df column = Inr s \<and> cast_column parse astype t s = Inl e))"

definition converted_in ::
  "(val \<Rightarrow> int option) \<Rightarrow> (dtype \<Rightarrow> series \<Rightarrow> py_error + series) \<Rightarrow> dataframe \<Rightarrow> dataframe
     \<Rightarrow> string \<times> cast_to \<Rightarrow> bool" where
  "converted_in parse astype df df' ct =
     (\<exists>s s'. map_of df (fst ct) = Some s \<and> cast_column parse astype (snd ct) s = Inr s'
        \<and> map_of df' (fst ct) = Some s')"

text \<open>An \<open>astype\<close> for the worked examples: text cannot be cast to \<open>int64\<close>, every other cast
  relabels the column.\<close>

definition sample_astype :: "dtype \<Rightarrow> series \<Rightarrow> py_error + series" where
  "sample_astype d s =
     (if d = Int64 \<and> list_ex (\<lambda>c. case c of Some (Str x) \<Rightarrow> True | _ \<Rightarrow> False) (cells s)
      then Inl (CastError ''invalid literal for int()'')
      else Inr (s\<lparr>dtype := d\<rparr>))"

section \<open>The table loader: \<open>load_data\<close>\<close>

text \<open>
  The file system is what the loader asks of it: \<open>os.path.exists\<close> and \<open>pd.read_csv\<close>, which
  returns a table or raises. \<open>str(e)\<close> of a raised exception is the message it carries.
\<close>

datatype read_error = FileNotFound string | EmptyDataError | ParserError string | OtherError string

record filesystem =
  path_exists :: "string \<Rightarrow> bool"
  read_csv :: "string \<Rightarrow> read_error + dataframe"

definition datasets :: "(string \<times> string) list" where
  "datasets =
     [(''customers'', ''olist_customers_dataset.csv''),
      (''geolocation'', ''olist_geolocation_dataset.csv''),
      (''order_items'', ''olist_order_items_dataset.csv''),
      (''orders'', ''olist_orders_dataset.csv''),
      (''order_payments'', ''olist_order_payments_dataset.csv''),
      (''order_reviews'', ''olist_order_reviews_dataset.csv''),
      (''products'', ''olist_products_dataset.csv''),
      (''sellers'', ''olist_sellers_dataset.csv''),
      (''product_category_name_translation'', ''product_category_name_translation.csv'')]"

text \<open>\<open>os.path.join\<close> of a directory and one name (POSIX).\<close>

definition path_join :: "string \<Rightarrow> string \<Rightarrow> string" where
  "path_join p f =
     (if f \<noteq> [] \<and> hd f = CHR ''/'' then f
      else if p = [] \<or> last p = CHR ''/'' then p @ f
      else p @ ''/'' @ f)"

text \<open>The statement \<open>d[key] = value\<close> on a dictionary kept in insertion order.\<close>

definition dict_set :: "'k \<Rightarrow> 'v \<Rightarrow> ('k \<times> 'v) list \<Rightarrow> ('k \<times> 'v) list" where
  "dict_set k v d =
     (if k \<in> fst ` set d then map (\<lambda>(k', v'). if k' = k then (k', v) else (k', v')) d
      else d @ [(k, v)])"

datatype event =
    Loaded string nat nat nat
  | ErrorFileNotFound string string
  | ErrorEmpty string
  | ErrorParse string string
  | ErrorOther string string
  | SummaryLoaded nat nat
  | SummaryFailed "(string \<times> string) list"

record load_state =
  data_frames :: "(string \<times> dataframe) list"
  failed_datasets :: "(string \<times> string) list"
  emitted :: "event list"

text \<open>The body of the \<open>try\<close>: it raises \<open>FileNotFoundError\<close> itself when the file is absent,
  otherwise whatever \<open>pd.read_csv\<close> raises, or yields the table.\<close>

definition try_read :: "filesystem \<Rightarrow> string \<Rightarrow> string \<Rightarrow> read_error + dataframe" where
  "try_read fs data_path file =
     (let file_path = path_join data_path file
      in if \<not> path_exists fs file_path then Inl (FileNotFound (''File not found: '' @ file))
         else read_csv fs file_path)"

text \<open>What each \<open>except\<close> clause appends to \<open>failed_datasets\<close>, and what it prints.\<close>

fun failure_message :: "read_error \<Rightarrow> string" where
  "failure_message (FileNotFound msg) = msg"
| "failure_message EmptyDataError = ''Empty CSV file''"
| "failure_message (ParserError msg) = ''Parse error - '' @ msg"
| "failure_message (OtherError msg) = msg"

fun failure_event :: "string \<Rightarrow> string \<Rightarrow> read_error \<Rightarrow> event" where
  "failure_event name file (FileNotFound msg) = ErrorFileNotFound name file"
| "failure_event name file EmptyDataError = ErrorEmpty name"
| "failure_event name file (ParserError msg) = ErrorParse name msg"
| "failure_event name file (OtherError msg) = ErrorOther name msg"

fun load_loop ::
  "filesystem \<Rightarrow> string \<Rightarrow> bool \<Rightarrow> nat \<Rightarrow> (nat \<times> string \<times> string) list \<Rightarrow> load_state
     \<Rightarrow> load_state" where
  "load_loop fs data_path verbose total_datasets [] st = st"
| "load_loop fs data_path verbose total_datasets ((i, name, file) # rest) st =
     (case try_read fs data_path file of
        Inr table \<Rightarrow>
          load_loop fs data_path verbose total_datasets rest
            (st\<lparr>data_frames := dict_set name table (data_frames st),
                emitted := emitted st @ (if verbose then [Loaded name i total_datasets (len_df table)] else [])\<rparr>)
      | Inl err \<Rightarrow>
          load_loop fs data_path verbose total_datasets rest
            (st\<lparr>failed_datasets := failed_datasets st @ [(name, failure_message err)],
                emitted := emitted st @ (if verbose then [failure_event name file err] else [])\<rparr>))"

definition load_run :: "filesystem \<Rightarrow> string \<Rightarrow> bool \<Rightarrow> py_error + load_state" where
  "load_run fs data_path verbose =
     (if \<not> path_exists fs data_path
      then Inl (FileNotFoundError (''Data path not found: '' @ data_path))
      else
        (let total_datasets = length datasets;
             st = load_loop fs data_path verbose total_datasets
                    (zip [1 ..< Suc total_datasets] datasets)
                    \<lparr>data_frames = [], failed_datasets = [], emitted = []\<rparr>
         in Inr (st\<lparr>emitted := emitted st @
                   (if verbose
                    then SummaryLoaded (length (data_frames st)) total_datasets
                         # (if failed_datasets st \<noteq> [] then [SummaryFailed (failed_datasets st)]
                            else [])
                    else [])\<rparr>)))"

text \<open>\<open>load_data\<close> returns the dictionary of loaded tables and nothing else.\<close>

definition load_data :: "filesystem \<Rightarrow> string \<Rightarrow> bool \<Rightarrow> py_error + (string \<times> dataframe) list" where
  "load_data fs data_path verbose =
     (case load_run fs data_path verbose of Inl e \<Rightarrow> Inl e | Inr st \<Rightarrow> Inr (data_frames st))"

text \<open>The failures a run has recorded in its local list (none when the call raised).\<close>

definition recorded_failures :: "filesystem \<Rightarrow> string \<Rightarrow> bool \<Rightarrow> (string \<times> string) list" where
  "recorded_failures fs data_path verbose =
     (case load_run fs data_path verbose of Inl e \<Rightarrow> [] | Inr st \<Rightarrow> failed_datasets st)"

text \<open>For the statement on the loader: an expected file is \<open>present\<close> when its path exists
  and \<open>readable\<close> when \<open>pd.read_csv\<close> returns a table for it; \<open>tables_read\<close> and
  \<open>failures_of\<close> are the tables and the failure records that the expected files give, in
  the order of the expected files.\<close>

definition present :: "filesystem \<Rightarrow> string \<Rightarrow> string \<times> string \<Rightarrow> bool" where
  "present fs data_path d = path_exists fs (path_join data_path (snd d))"

definition readable :: "filesystem \<Rightarrow> string \<Rightarrow> string \<times> string \<Rightarrow> bool" where
  "readable fs data_path d = (\<exists>table. read_csv fs (path_join data_path (snd d)) = Inr table)"

definition tables_read ::
  "filesystem \<Rightarrow> string \<Rightarrow> (string \<times> string) list \<Rightarrow> (string \<times> dataframe) list" where
  "tables_read fs data_path ds =
     List.map_filter
       (\<lambda>d. case try_read fs data_path (snd d) of Inr table \<Rightarrow> Some (fst d, table) | Inl err \<Rightarrow> None) ds"

definition failures_of ::
  "filesystem \<Rightarrow> string \<Rightarrow> (string \<times> string) list \<Rightarrow> (string \<times> string) list" where
  "failures_of fs data_path ds =
     List.map_filter
       (\<lambda>d. case try_read fs data_path (snd d) of
               Inr table \<Rightarrow> None
             | Inl err \<Rightarrow> Some (fst d, failure_message err)) ds"

text \<open>Two directories \<open>data\<close> for the worked examples. In the first the geolocation and
  sellers files are absent and the other seven hold a one-row table; in the second all nine
  files are there and those two are empty.\<close>

definition one_row :: dataframe where
  "one_row = [(''id'', \<lparr>dtype = Int64, cells = [Some (Num 1)]\<rparr>)]"

definition two_files :: "string list" where
  "two_files = [''data/olist_geolocation_dataset.csv'', ''data/olist_sellers_dataset.csv'']"

definition fs_two_missing :: filesystem where
  "fs_two_missing =
     \<lparr>path_exists = (\<lambda>p. p = ''data''
          \<or> (p \<in> set (map (\<lambda>(name, file). path_join ''data'' file) datasets) \<and> p \<notin> set two_files)),
      read_csv = (\<lambda>p. Inr one_row)\<rparr>"

definition fs_two_empty :: filesystem where
  "fs_two_empty =
     \<lparr>path_exists = (\<lambda>p. p = ''data''
          \<or> p \<in> set (map (\<lambda>(name, file). path_join ''data'' file) datasets)),
      read_csv = (\<lambda>p. if p \<in> set two_files then Inl EmptyDataError else Inr one_row)\<rparr>"

section \<open>Well-formed tables and further examples\<close>




text \<open>A table with one float column and no row.\<close>

definition empty_table :: dataframe where
  "empty_table = [(''x'', \<lparr>dtype = Float64, cells = []\<rparr>)]"


section \<open>Properties of the column classifier\<close>

lemma parse_cells_eq:
  "parse_cells p cs =
     (if \<forall>c \<in> set cs. case c of None \<Rightarrow> True | Some v \<Rightarrow> p v \<noteq> None
      then Some (map (\<lambda>c. case c of None \<Rightarrow> None | Some v \<Rightarrow> Some (Ts (the (p v)))) cs)
      else None)"
proof (induction cs)
  case Nil
  show ?case by simp
next
  case (Cons c cs)
  show ?case
  proof (cases c)
    case None
    then show ?thesis using Cons by simp
  next
    case (Some v)
    then show ?thesis using Cons by (cases "p v") simp_all
  qed
qed

lemma to_datetime_eq:
  "to_datetime p s = (if all_parse p s then Inr (coerce p s) else Inl ParseFailure)"
  by (simp add: to_datetime_def all_parse_def coerce_def parse_cells_eq)

lemma detect_datetime_step:
  "detect_datetime p ((c, s) # rest) (sdf, dts) =
     (if dtype s = Datetime64 then detect_datetime p rest (sdf, dts @ [c])
      else if is_text s \<and> all_parse p s
        then detect_datetime p rest (set_col c (coerce p s) sdf, dts @ [c])
      else detect_datetime p rest (sdf, dts))"
  by (simp add: to_datetime_eq is_text_def is_datetime64_any_dtype_def is_string_dtype_def)


declare detect_datetime.simps(2) [simp del]

lemma detect_datetime_snd:
  "snd (detect_datetime p cols (sdf, dts)) = dts @ map fst (filter (\<lambda>(c, s). qualifies p s) cols)"
proof (induction cols arbitrary: sdf dts)
  case Nil
  show ?case by simp
next
  case (Cons a cols)
  obtain c s where a: "a = (c, s)" by (cases a)
  show ?case unfolding a detect_datetime_step
    by (simp add: Cons.IH qualifies_def)
qed

lemma map_of_replace_same:
  "map_of (map (\<lambda>(n, t). if n = col then (n, s) else (n, t)) df) col =
     (if col \<in> fst ` set df then Some s else None)"
  by (induction df) auto

lemma map_of_replace_other:
  "c \<noteq> col \<Longrightarrow> map_of (map (\<lambda>(n, t). if n = col then (n, s) else (n, t)) df) c = map_of df c"
  by (induction df) auto


lemma map_of_set_col_other: "c \<noteq> col \<Longrightarrow> map_of (set_col col s df) c = map_of df c"
  unfolding set_col_def by (simp add: map_of_replace_other map_add_def split: option.splits)

lemma map_of_set_col_same:
  assumes "col \<in> set (columns df)"
  shows "map_of (set_col col s df) col = Some s"
proof -
  have "set_col col s df = map (\<lambda>(n, t). if n = col then (n, s) else (n, t)) df"
    using assms by (simp add: set_col_def)
  moreover have "col \<in> fst ` set df" using assms by (simp add: columns_def)
  ultimately show ?thesis by (simp only: map_of_replace_same if_True)
qed



lemma detect_datetime_untouched:
  "c \<notin> set (snd (detect_datetime p cols (sdf, dts))) \<Longrightarrow>
   map_of (fst (detect_datetime p cols (sdf, dts))) c = map_of sdf c"
proof (induction cols arbitrary: sdf dts)
  case Nil
  show ?case by simp
next
  case (Cons a cols)
  obtain c' s where a: "a = (c', s)" by (cases a)
  have notin: "c \<notin> set (snd (detect_datetime p ((c', s) # cols) (sdf, dts)))"
    using Cons.prems a by simp
  consider (dt) "dtype s = Datetime64"
    | (conv) "dtype s \<noteq> Datetime64" "is_text s \<and> all_parse p s"
    | (no) "dtype s \<noteq> Datetime64" "\<not> (is_text s \<and> all_parse p s)"
    by blast
  then show ?case
  proof cases
    case dt
    have eq: "detect_datetime p ((c', s) # cols) (sdf, dts) = detect_datetime p cols (sdf, dts @ [c'])"
      using dt by (simp add: detect_datetime_step)
    show ?thesis unfolding a eq using notin Cons.IH [of sdf "dts @ [c']"] unfolding eq by blast
  next
    case conv
    have eq: "detect_datetime p ((c', s) # cols) (sdf, dts)
        = detect_datetime p cols (set_col c' (coerce p s) sdf, dts @ [c'])"
      using conv by (simp add: detect_datetime_step)
    have "c' \<in> set (snd (detect_datetime p cols (set_col c' (coerce p s) sdf, dts @ [c'])))"
      by (simp add: detect_datetime_snd)
    then have ne: "c \<noteq> c'" using notin unfolding eq by blast
    have "map_of (fst (detect_datetime p cols (set_col c' (coerce p s) sdf, dts @ [c']))) c
        = map_of (set_col c' (coerce p s) sdf) c"
      using notin Cons.IH [of "set_col c' (coerce p s) sdf" "dts @ [c']"] unfolding eq by blast
    then show ?thesis unfolding a eq by (simp add: map_of_set_col_other [OF ne])
  next
    case no
    have eq: "detect_datetime p ((c', s) # cols) (sdf, dts) = detect_datetime p cols (sdf, dts)"
      using no by (auto simp: detect_datetime_step)
    show ?thesis unfolding a eq using notin Cons.IH [of sdf dts] unfolding eq by blast
  qed
qed



lemma detect_categorical_eq:
  "detect_categorical tgt ct hct dts cols (cats, highs) =
     (cats @ map fst (filter (\<lambda>(c, s). Some c \<noteq> tgt \<and> c \<notin> set dts \<and> cat_family ct s
                                      \<and> nunique s \<le> hct) cols),
      highs @ map fst (filter (\<lambda>(c, s). Some c \<noteq> tgt \<and> c \<notin> set dts \<and> cat_family ct s
                                      \<and> \<not> nunique s \<le> hct) cols))"
proof (induction cols arbitrary: cats highs)
  case Nil
  show ?case by simp
next
  case (Cons a cols)
  obtain c s where a: "a = (c, s)" by (cases a)
  have fam: "(is_categorical_dtype s \<or> is_object_or_string s \<or> (is_int64_or_float64 s \<and> nunique s \<le> ct))
      = cat_family ct s"
    by (auto simp: cat_family_def is_text_def is_categorical_dtype_def is_object_or_string_def
        is_string_dtype_def)
  show ?case unfolding a
    by (simp add: Let_def fam Cons.IH)
qed

lemma datetime_cols_eq:
  "datetime_cols (EDA_init p df tgt ct hct) = map fst (filter (\<lambda>(c, s). qualifies p s) df)"
proof -
  have "datetime_cols (EDA_init p df tgt ct hct) = snd (detect_datetime p df (df, []))"
    by (simp add: EDA_init_def Let_def split: prod.splits)
  then show ?thesis by (simp add: detect_datetime_snd)
qed

lemma self_df_eq:
  "self_df (EDA_init p df tgt ct hct) = fst (detect_datetime p df (df, []))"
  by (simp add: EDA_init_def Let_def split: prod.splits)

lemma numerical_cols_eq:
  "numerical_cols (EDA_init p df tgt ct hct) =
     filter (\<lambda>col. col \<notin> set (datetime_cols (EDA_init p df tgt ct hct)))
       (remove_target tgt (select_numeric df))"
  by (simp add: EDA_init_def Let_def detect_numerical_def split: prod.splits)

lemma categorical_cols_eq:
  "categorical_cols (EDA_init p df tgt ct hct) =
     map fst (filter (\<lambda>(c, s). Some c \<noteq> tgt \<and> c \<notin> set (datetime_cols (EDA_init p df tgt ct hct))
                              \<and> cat_family ct s \<and> nunique s \<le> hct) df)"
  by (simp add: EDA_init_def Let_def detect_categorical_eq split: prod.splits)

lemma high_cardinality_cols_eq:
  "high_cardinality_cols (EDA_init p df tgt ct hct) =
     map fst (filter (\<lambda>(c, s). Some c \<noteq> tgt \<and> c \<notin> set (datetime_cols (EDA_init p df tgt ct hct))
                              \<and> cat_family ct s \<and> \<not> nunique s \<le> hct) df)"
  by (simp add: EDA_init_def Let_def detect_categorical_eq split: prod.splits)

lemma mem_filter_names:
  assumes "distinct (columns df)" and "(c, s) \<in> set df"
  shows "c \<in> set (map fst (filter P df)) \<longleftrightarrow> P (c, s)"
proof
  assume "c \<in> set (map fst (filter P df))"
  then obtain s' where m: "(c, s') \<in> set df" and p: "P (c, s')" by auto
  have "s' = s" using assms m by (auto simp: columns_def dest: eq_key_imp_eq_value)
  then show "P (c, s)" using p by simp
next
  assume "P (c, s)"
  then have "(c, s) \<in> set (filter P df)" using assms(2) by simp
  then show "c \<in> set (map fst (filter P df))" by force
qed

lemma datetime_mem:
  assumes "distinct (columns df)" and "(c, s) \<in> set df"
  shows "c \<in> set (datetime_cols (EDA_init p df tgt ct hct)) \<longleftrightarrow> qualifies p s"
  unfolding datetime_cols_eq using mem_filter_names [OF assms, of "\<lambda>(c, s). qualifies p s"] by simp

lemma distinct_select_numeric: "distinct (columns df) \<Longrightarrow> distinct (select_numeric df)"
  unfolding select_numeric_def columns_def by (rule distinct_map_filter)

lemma remove_target_mem:
  assumes "distinct (columns df)" and "(c, s) \<in> set df"
  shows "c \<in> set (remove_target tgt (select_numeric df)) \<longleftrightarrow> Some c \<noteq> tgt \<and> is_int64_or_float64 s"
proof -
  have sel: "c \<in> set (select_numeric df) \<longleftrightarrow> is_int64_or_float64 s"
    unfolding select_numeric_def
    using mem_filter_names [OF assms, of "\<lambda>(n, s). is_int64_or_float64 s"] by simp
  show ?thesis
  proof (cases tgt)
    case None
    then show ?thesis using sel by (simp add: remove_target_def)
  next
    case (Some t)
    have "set (remove1 t (select_numeric df)) = set (select_numeric df) - {t}"
      using distinct_select_numeric [OF assms(1)] by (rule set_remove1_eq)
    then show ?thesis using Some sel by (auto simp: remove_target_def)
  qed
qed

lemma numerical_mem:
  assumes "distinct (columns df)" and "(c, s) \<in> set df"
  shows "c \<in> set (numerical_cols (EDA_init p df tgt ct hct)) \<longleftrightarrow>
     \<not> qualifies p s \<and> Some c \<noteq> tgt \<and> is_int64_or_float64 s"
  unfolding numerical_cols_eq
  using datetime_mem [OF assms, of p tgt ct hct] remove_target_mem [OF assms, of tgt] by auto

lemma categorical_mem:
  assumes "distinct (columns df)" and "(c, s) \<in> set df"
  shows "c \<in> set (categorical_cols (EDA_init p df tgt ct hct)) \<longleftrightarrow>
     Some c \<noteq> tgt \<and> \<not> qualifies p s \<and> cat_family ct s \<and> nunique s \<le> hct"
  unfolding categorical_cols_eq
  using datetime_mem [OF assms, of p tgt ct hct]
    mem_filter_names [OF assms, of "\<lambda>(c, s). Some c \<noteq> tgt
       \<and> c \<notin> set (datetime_cols (EDA_init p df tgt ct hct)) \<and> cat_family ct s \<and> nunique s \<le> hct"]
  by simp

lemma high_cardinality_mem:
  assumes "distinct (columns df)" and "(c, s) \<in> set df"
  shows "c \<in> set (high_cardinality_cols (EDA_init p df tgt ct hct)) \<longleftrightarrow>
     Some c \<noteq> tgt \<and> \<not> qualifies p s \<and> cat_family ct s \<and> hct < nunique s"
  unfolding high_cardinality_cols_eq
  using datetime_mem [OF assms, of p tgt ct hct]
    mem_filter_names [OF assms, of "\<lambda>(c, s). Some c \<noteq> tgt
       \<and> c \<notin> set (datetime_cols (EDA_init p df tgt ct hct)) \<and> cat_family ct s \<and> \<not> nunique s \<le> hct"]
  by (simp add: not_le)

lemma listed_is_column:
  "c \<in> set (datetime_cols (EDA_init p df tgt ct hct)) \<union> set (numerical_cols (EDA_init p df tgt ct hct))
      \<union> set (categorical_cols (EDA_init p df tgt ct hct))
      \<union> set (high_cardinality_cols (EDA_init p df tgt ct hct))
   \<Longrightarrow> \<exists>s. (c, s) \<in> set df"
proof -
  have "set (select_numeric df) \<subseteq> fst ` set df"
    by (auto simp: select_numeric_def)
  moreover have "set (remove_target tgt (select_numeric df)) \<subseteq> set (select_numeric df)"
    using set_remove1_subset [of _ "select_numeric df"]
    by (cases tgt) (auto simp: remove_target_def)
  ultimately have "set (remove_target tgt (select_numeric df)) \<subseteq> fst ` set df"
    by blast
  moreover assume "c \<in> set (datetime_cols (EDA_init p df tgt ct hct)) \<union> set (numerical_cols (EDA_init p df tgt ct hct))
      \<union> set (categorical_cols (EDA_init p df tgt ct hct))
      \<union> set (high_cardinality_cols (EDA_init p df tgt ct hct))"
  ultimately have "c \<in> fst ` set df"
    unfolding datetime_cols_eq numerical_cols_eq categorical_cols_eq high_cardinality_cols_eq
    by auto
  then show ?thesis by auto
qed

text \<open>
  Claim C1, as the code has it. For a table with distinct column names: the datetime list is
  disjoint from the numerical, categorical and high-cardinality lists, and the categorical and
  high-cardinality lists are disjoint from each other. Every int64/float64 column other than
  the target is in the numerical list; when its \<open>n_unique\<close> is at most
  \<open>categorical_threshold\<close> it is also in exactly one of the categorical and high-cardinality
  lists (split by \<open>high_cardinality_threshold\<close>), and when its \<open>n_unique\<close> is above
  \<open>categorical_threshold\<close> it is in neither of them.
\<close>

theorem classifier_lists:
  assumes "distinct (columns df)"
  shows "let e = EDA_init parse df tgt ct hct in
     set (datetime_cols e) \<inter>
       (set (numerical_cols e) \<union> set (categorical_cols e) \<union> set (high_cardinality_cols e)) = {}
   \<and> set (categorical_cols e) \<inter> set (high_cardinality_cols e) = {}
   \<and> (\<forall>(c, s) \<in> set df. is_int64_or_float64 s \<and> Some c \<noteq> tgt \<longrightarrow>
         c \<in> set (numerical_cols e)
       \<and> (nunique s \<le> ct \<longrightarrow>
            (c \<in> set (categorical_cols e) \<longleftrightarrow> nunique s \<le> hct)
          \<and> (c \<in> set (high_cardinality_cols e) \<longleftrightarrow> hct < nunique s))
       \<and> (ct < nunique s \<longrightarrow>
            c \<notin> set (categorical_cols e) \<and> c \<notin> set (high_cardinality_cols e)))"
proof -
  define e where "e = EDA_init parse df tgt ct hct"
  have d1: "set (datetime_cols e) \<inter> set (numerical_cols e) = {}"
    unfolding e_def by (subst numerical_cols_eq) auto
  have d2: "set (datetime_cols e) \<inter> set (categorical_cols e) = {}"
    unfolding e_def by (subst categorical_cols_eq) auto
  have d3: "set (datetime_cols e) \<inter> set (high_cardinality_cols e) = {}"
    unfolding e_def by (subst high_cardinality_cols_eq) auto
  have d4: "set (categorical_cols e) \<inter> set (high_cardinality_cols e) = {}"
  proof (rule ccontr)
    assume "set (categorical_cols e) \<inter> set (high_cardinality_cols e) \<noteq> {}"
    then obtain c where c1: "c \<in> set (categorical_cols e)" and c2: "c \<in> set (high_cardinality_cols e)"
      by blast
    obtain s where m: "(c, s) \<in> set df"
      using listed_is_column [of c parse df tgt ct hct] c1 unfolding e_def by blast
    show False
      using c1 c2 categorical_mem [OF assms m, of parse tgt ct hct]
        high_cardinality_mem [OF assms m, of parse tgt ct hct]
      unfolding e_def by simp
  qed
  have num: "c \<in> set (numerical_cols e)
       \<and> (nunique s \<le> ct \<longrightarrow>
            (c \<in> set (categorical_cols e) \<longleftrightarrow> nunique s \<le> hct)
          \<and> (c \<in> set (high_cardinality_cols e) \<longleftrightarrow> hct < nunique s))
       \<and> (ct < nunique s \<longrightarrow>
            c \<notin> set (categorical_cols e) \<and> c \<notin> set (high_cardinality_cols e))"
    if m: "(c, s) \<in> set df" and n: "is_int64_or_float64 s" and t: "Some c \<noteq> tgt" for c s
  proof -
    have nq: "\<not> qualifies parse s"
      using n by (auto simp: qualifies_def is_text_def is_int64_or_float64_def)
    have fam: "cat_family ct s \<longleftrightarrow> nunique s \<le> ct"
      using n by (auto simp: cat_family_def is_text_def is_int64_or_float64_def)
    show ?thesis
      unfolding e_def
      using nq fam n t numerical_mem [OF assms m, of parse tgt ct hct]
        categorical_mem [OF assms m, of parse tgt ct hct]
        high_cardinality_mem [OF assms m, of parse tgt ct hct]
      by auto
  qed
  have "set (datetime_cols e) \<inter>
       (set (numerical_cols e) \<union> set (categorical_cols e) \<union> set (high_cardinality_cols e)) = {}"
    using d1 d2 d3 by blast
  then show ?thesis
    unfolding Let_def e_def [symmetric] using d4 num by blast
qed


text \<open>
  Claim C9. A text column with a non-null value that does not parse as a date is stored in the
  working table after classification exactly as it came in, and it is not listed as datetime.
\<close>

theorem failed_probe_keeps_column:
  assumes "distinct (columns df)" and "(c, s) \<in> set df" and "is_text s"
    and "Some v \<in> set (cells s)" and "parse v = None"
  shows "map_of (self_df (EDA_init parse df tgt ct hct)) c = Some s
       \<and> c \<notin> set (datetime_cols (EDA_init parse df tgt ct hct))"
proof -
  have "\<not> all_parse parse s"
    unfolding all_parse_def using assms(4,5) by (auto intro!: bexI [of _ "Some v"])
  then have nq: "\<not> qualifies parse s"
    using assms(3) by (auto simp: qualifies_def is_text_def)
  then have notin: "c \<notin> set (datetime_cols (EDA_init parse df tgt ct hct))"
    using datetime_mem [OF assms(1,2), of parse tgt ct hct] by simp
  then have "c \<notin> set (snd (detect_datetime parse df (df, [])))"
    by (simp add: datetime_cols_eq detect_datetime_snd)
  then have "map_of (fst (detect_datetime parse df (df, []))) c = map_of df c"
    by (rule detect_datetime_untouched)
  moreover have "map_of df c = Some s"
    using assms(1,2) by (simp add: columns_def)
  ultimately show ?thesis using notin by (simp add: self_df_eq)
qed

text \<open>
  Claim C3, at a failing input. The target \<open>when\<close> of the sample table is a text column whose
  non-null values all parse as dates: the first loop, which has no check for the target,
  lists it as datetime. The numerical list and the second loop do exclude the target.
\<close>

theorem target_listed_as_datetime:
  "datetime_cols (EDA_init sample_parse sample_table (Some ''when'') 10 100) = [''when'']"
  by code_simp

text \<open>
  Claim C1 as stated fails: the numerical and categorical lists are not disjoint. The integer
  column \<open>score\<close> of the sample table has two distinct values, at most the categorical
  threshold 10, and it is listed both as numerical and as categorical: the numerical list is
  never reduced by the low-cardinality columns.
\<close>

theorem numeric_column_in_two_lists:
  "''score'' \<in> set (numerical_cols (EDA_init sample_parse sample_table None 10 100))
     \<inter> set (categorical_cols (EDA_init sample_parse sample_table None 10 100))"
  by code_simp

theorem classifier_lists_witness:
  "distinct (columns sample_table)
   \<and> is_int64_or_float64 \<lparr>dtype = Int64, cells = [Some (Num 1), Some (Num 2), Some (Num 1)]\<rparr>
   \<and> nunique \<lparr>dtype = Int64, cells = [Some (Num 1), Some (Num 2), Some (Num 1)]\<rparr> \<le> 2
   \<and> is_int64_or_float64 \<lparr>dtype = Float64, cells = [Some (Num 10), Some (Num 20), Some (Num 30)]\<rparr>
   \<and> 2 < nunique \<lparr>dtype = Float64, cells = [Some (Num 10), Some (Num 20), Some (Num 30)]\<rparr>
   \<and> ''score'' \<in> set (numerical_cols (EDA_init sample_parse sample_table None 2 100))
   \<and> ''score'' \<in> set (categorical_cols (EDA_init sample_parse sample_table None 2 100))
   \<and> ''price'' \<in> set (numerical_cols (EDA_init sample_parse sample_table None 2 100))
   \<and> ''price'' \<notin> set (categorical_cols (EDA_init sample_parse sample_table None 2 100))
   \<and> set (categorical_cols (EDA_init sample_parse sample_table None 2 100))
       \<inter> set (high_cardinality_cols (EDA_init sample_parse sample_table None 2 100)) = {}"
proof -
  let ?score = "\<lparr>dtype = Int64, cells = [Some (Num 1), Some (Num 2), Some (Num 1)]\<rparr>"
  let ?price = "\<lparr>dtype = Float64, cells = [Some (Num 10), Some (Num 20), Some (Num 30)]\<rparr>"
  have h: "distinct (columns sample_table)" by code_simp
  have m1: "(''score'', ?score) \<in> set sample_table" by (simp add: sample_table_def)
  have m2: "(''price'', ?price) \<in> set sample_table" by (simp add: sample_table_def)
  have n1: "is_int64_or_float64 ?score" and n2: "is_int64_or_float64 ?price"
    by (simp_all add: is_int64_or_float64_def)
  have u1: "nunique ?score \<le> 2" and u2: "2 < nunique ?price" by code_simp+
  have t: "Some ''score'' \<noteq> (None :: string option)" "Some ''price'' \<noteq> (None :: string option)"
    by simp_all
  note cl = classifier_lists [OF h, of sample_parse None 2 100, unfolded Let_def]
  note per_column = cl [THEN conjunct2, THEN conjunct2]
  note s1 = bspec [OF per_column m1, unfolded prod.case]
  note s2 = bspec [OF per_column m2, unfolded prod.case]
  note dj = cl [THEN conjunct2, THEN conjunct1]
  have a1: "''score'' \<in> set (numerical_cols (EDA_init sample_parse sample_table None 2 100))
      \<and> ''score'' \<in> set (categorical_cols (EDA_init sample_parse sample_table None 2 100))"
    using s1 n1 u1 t(1) by simp
  have a2: "''price'' \<in> set (numerical_cols (EDA_init sample_parse sample_table None 2 100))
      \<and> ''price'' \<notin> set (categorical_cols (EDA_init sample_parse sample_table None 2 100))"
    using s2 n2 u2 t(2) by simp
  show ?thesis using h n1 n2 u1 u2 a1 a2 dj by blast
qed


theorem failed_probe_keeps_column_witness:
  "distinct (columns sample_table)
   \<and> is_text \<lparr>dtype = Object, cells = [Some (Str ''2024-01-01''), Some (Str ''late''), None]\<rparr>
   \<and> sample_parse (Str ''late'') = None
   \<and> map_of (self_df (EDA_init sample_parse sample_table None 2 100)) ''note''
       = Some \<lparr>dtype = Object, cells = [Some (Str ''2024-01-01''), Some (Str ''late''), None]\<rparr>
   \<and> ''note'' \<notin> set (datetime_cols (EDA_init sample_parse sample_table None 2 100))"
proof -
  let ?note = "\<lparr>dtype = Object, cells = [Some (Str ''2024-01-01''), Some (Str ''late''), None]\<rparr>"
  have h: "distinct (columns sample_table)" by code_simp
  have m: "(''note'', ?note) \<in> set sample_table" by (simp add: sample_table_def)
  have x: "is_text ?note" by (simp add: is_text_def)
  have v: "Some (Str ''late'') \<in> set (cells ?note)" by simp
  have p: "sample_parse (Str ''late'') = None" by (simp add: sample_parse_def)
  show ?thesis
    using h x p failed_probe_keeps_column
      [where parse = sample_parse and v = "Str ''late''" and tgt = None and ct = 2 and hct = 100,
        OF h m x v p]
    by blast
qed

section \<open>Properties of the numerical profile\<close>





section \<open>Properties of the overview\<close>






section \<open>Properties of the type caster\<close>

lemma get_col_Inr: "get_col df c = Inr s \<longleftrightarrow> map_of df c = Some s"
  by (simp add: get_col_def split: option.splits)

lemma get_col_column: "get_col df c = Inr s \<Longrightarrow> c \<in> set (columns df)"
  by (auto simp: get_col_def columns_def split: option.splits dest: map_of_SomeD intro: rev_image_eqI)

lemma cast_loop_error:
  "cast_loop parse astype m df = (df', Some e) \<Longrightarrow> distinct (map fst m) \<Longrightarrow>
   \<exists>pre column t post. m = pre @ (column, t) # post
      \<and> (\<forall>ct \<in> set pre. converted_in parse astype df df' ct)
      \<and> (\<forall>c. c \<notin> fst ` set pre \<longrightarrow> map_of df' c = map_of df c)
      \<and> cast_fails parse astype df column t e"
proof (induction m arbitrary: df)
  case Nil
  then show ?case by simp
next
  case (Cons a m)
  obtain c0 t0 where a: "a = (c0, t0)" by (cases a)
  have dm: "distinct (map fst m)" and c0m: "c0 \<notin> fst ` set m"
    using Cons.prems(2) a by auto
  show ?case
  proof (cases "get_col df c0")
    case (Inl e0)
    then have "df' = df" "e = e0" using Cons.prems(1) a by auto
    then have "a # m = [] @ (c0, t0) # m \<and> (\<forall>ct \<in> set []. converted_in parse astype df df' ct)
      \<and> (\<forall>c. c \<notin> fst ` set [] \<longrightarrow> map_of df' c = map_of df c)
      \<and> cast_fails parse astype df c0 t0 e"
      using Inl a by (simp add: cast_fails_def)
    then show ?thesis by blast
  next
    case (Inr s0)
    show ?thesis
    proof (cases "cast_column parse astype t0 s0")
      case (Inl e0)
      then have "df' = df" "e = e0" using Cons.prems(1) a Inr by auto
      then have "a # m = [] @ (c0, t0) # m \<and> (\<forall>ct \<in> set []. converted_in parse astype df df' ct)
        \<and> (\<forall>c. c \<notin> fst ` set [] \<longrightarrow> map_of df' c = map_of df c)
        \<and> cast_fails parse astype df c0 t0 e"
        using Inl Inr a by (simp add: cast_fails_def)
      then show ?thesis by blast
    next
      case (Inr s0')
      define df1 where "df1 = set_col c0 s0' df"
      have run: "cast_loop parse astype m df1 = (df', Some e)"
        using Cons.prems(1) a \<open>get_col df c0 = Inr s0\<close> Inr by (simp add: df1_def)
      from Cons.IH [OF run dm] obtain pre column t post where
        m: "m = pre @ (column, t) # post"
        and conv: "\<forall>ct \<in> set pre. converted_in parse astype df1 df' ct"
        and rest: "\<forall>c. c \<notin> fst ` set pre \<longrightarrow> map_of df' c = map_of df1 c"
        and fails: "cast_fails parse astype df1 column t e"
        by blast
      have other: "map_of df1 c = map_of df c" if "c \<noteq> c0" for c
        unfolding df1_def by (rule map_of_set_col_other [OF that])
      have same: "map_of df1 c0 = Some s0'"
        unfolding df1_def
        by (rule map_of_set_col_same [OF get_col_column [OF \<open>get_col df c0 = Inr s0\<close>]])
      have c0pre: "c0 \<notin> fst ` set pre" and c0col: "column \<noteq> c0"
        using c0m m by auto
      have first: "converted_in parse astype df df' (c0, t0)"
        unfolding converted_in_def
        using \<open>get_col df c0 = Inr s0\<close> Inr rest c0pre same by (auto simp: get_col_Inr)
      have later: "converted_in parse astype df df' ct" if "ct \<in> set pre" for ct
      proof -
        have "fst ct \<noteq> c0" using that c0pre by auto
        then show ?thesis using conv that other unfolding converted_in_def by auto
      qed
      have keep: "map_of df' c = map_of df c" if "c \<notin> fst ` set ((c0, t0) # pre)" for c
        using that rest other by auto
      have fails': "cast_fails parse astype df column t e"
        using fails other [OF c0col] unfolding cast_fails_def get_col_def by simp
      have "a # m = ((c0, t0) # pre) @ (column, t) # post
        \<and> (\<forall>ct \<in> set ((c0, t0) # pre). converted_in parse astype df df' ct)
        \<and> (\<forall>c. c \<notin> fst ` set ((c0, t0) # pre) \<longrightarrow> map_of df' c = map_of df c)
        \<and> cast_fails parse astype df column t e"
        using a m first later keep fails' by auto
      then show ?thesis by blast
    qed
  qed
qed

text \<open>
  Claim C10. When a call of \<open>cast_data_types\<close> on a mapping with distinct keys raises, nothing
  is printed, and the mapping splits at the column whose cast raised: every column before
  it has been converted as declared in the caller's dataframe, every column not before it
  is as it was.
\<close>

theorem cast_not_atomic:
  assumes "distinct (map fst type_mapping)"
    and "raised (cast_data_types parse astype df type_mapping) = Some e"
  shows "printed (cast_data_types parse astype df type_mapping) = []
     \<and> (\<exists>pre column t post. type_mapping = pre @ (column, t) # post
          \<and> (\<forall>ct \<in> set pre.
                converted_in parse astype df (df_after (cast_data_types parse astype df type_mapping)) ct)
          \<and> (\<forall>c. c \<notin> fst ` set pre \<longrightarrow>
                map_of (df_after (cast_data_types parse astype df type_mapping)) c = map_of df c)
          \<and> cast_fails parse astype df column t e)"
proof -
  obtain df' err where loop: "cast_loop parse astype type_mapping df = (df', err)"
    by (cases "cast_loop parse astype type_mapping df")
  have err: "err = Some e"
    using assms(2) loop by (cases err) (simp_all add: cast_data_types_def Let_def)
  have after: "df_after (cast_data_types parse astype df type_mapping) = df'"
    and pr: "printed (cast_data_types parse astype df type_mapping) = []"
    using loop err by (simp_all add: cast_data_types_def Let_def)
  show ?thesis
    unfolding after using pr cast_loop_error [OF loop [unfolded err] assms(1)] by simp
qed

theorem cast_not_atomic_witness:
  "distinct (map fst [(''score'', Dtype Float64), (''when'', Datetime), (''note'', Dtype Int64),
       (''paid'', Dtype Int64)])
   \<and> raised (cast_data_types sample_parse sample_astype sample_table
         [(''score'', Dtype Float64), (''when'', Datetime), (''note'', Dtype Int64),
          (''paid'', Dtype Int64)]) = Some (CastError ''invalid literal for int()'')
   \<and> printed (cast_data_types sample_parse sample_astype sample_table
         [(''score'', Dtype Float64), (''when'', Datetime), (''note'', Dtype Int64),
          (''paid'', Dtype Int64)]) = []
   \<and> map_of (df_after (cast_data_types sample_parse sample_astype sample_table
         [(''score'', Dtype Float64), (''when'', Datetime), (''note'', Dtype Int64),
          (''paid'', Dtype Int64)])) ''score''
       = Some \<lparr>dtype = Float64, cells = [Some (Num 1), Some (Num 2), Some (Num 1)]\<rparr>
   \<and> map_of (df_after (cast_data_types sample_parse sample_astype sample_table
         [(''score'', Dtype Float64), (''when'', Datetime), (''note'', Dtype Int64),
          (''paid'', Dtype Int64)])) ''when''
       = Some \<lparr>dtype = Datetime64, cells = [Some (Ts 19723), None, Some (Ts 19724)]\<rparr>"
proof -
  let ?m = "[(''score'', Dtype Float64), (''when'', Datetime), (''note'', Dtype Int64),
       (''paid'', Dtype Int64)]"
  have h1: "distinct (map fst ?m)" by simp
  have h2: "raised (cast_data_types sample_parse sample_astype sample_table ?m)
      = Some (CastError ''invalid literal for int()'')"
    by code_simp
  have p: "printed (cast_data_types sample_parse sample_astype sample_table ?m) = []"
    by (rule cast_not_atomic [OF h1 h2, THEN conjunct1])
  have a: "map_of (df_after (cast_data_types sample_parse sample_astype sample_table ?m)) ''score''
       = Some \<lparr>dtype = Float64, cells = [Some (Num 1), Some (Num 2), Some (Num 1)]\<rparr>"
    by code_simp
  have b: "map_of (df_after (cast_data_types sample_parse sample_astype sample_table ?m)) ''when''
       = Some \<lparr>dtype = Datetime64, cells = [Some (Ts 19723), None, Some (Ts 19724)]\<rparr>"
    by code_simp
  show ?thesis using h1 h2 p a b by blast
qed

section \<open>Properties of the table loader\<close>

lemma dict_set_fresh: "k \<notin> fst ` set d \<Longrightarrow> dict_set k v d = d @ [(k, v)]"
  by (simp add: dict_set_def)

lemma tables_read_Cons:
  "tables_read fs p (d # ds) =
     (case try_read fs p (snd d) of Inr table \<Rightarrow> (fst d, table) # tables_read fs p ds
      | Inl err \<Rightarrow> tables_read fs p ds)"
  by (simp add: tables_read_def List.map_filter_simps split: sum.splits)

lemma failures_of_Cons:
  "failures_of fs p (d # ds) =
     (case try_read fs p (snd d) of Inr table \<Rightarrow> failures_of fs p ds
      | Inl err \<Rightarrow> (fst d, failure_message err) # failures_of fs p ds)"
  by (simp add: failures_of_def List.map_filter_simps split: sum.splits)

lemma tables_read_Nil: "tables_read fs p [] = []" and failures_of_Nil: "failures_of fs p [] = []"
  by (simp_all add: tables_read_def failures_of_def List.map_filter_simps)

lemma tables_read_names: "fst ` set (tables_read fs p ds) \<subseteq> fst ` set ds"
proof (induction ds)
  case Nil
  show ?case by (simp add: tables_read_Nil)
next
  case (Cons d ds)
  show ?case
  proof (cases "try_read fs p (snd d)")
    case (Inl err)
    then show ?thesis using Cons by (auto simp: tables_read_Cons)
  next
    case (Inr table)
    then show ?thesis using Cons by (auto simp: tables_read_Cons)
  qed
qed

lemma load_loop_state:
  "distinct (map (\<lambda>item. fst (snd item)) items) \<Longrightarrow>
   fst ` set (data_frames st) \<inter> (\<lambda>item. fst (snd item)) ` set items = {} \<Longrightarrow>
   data_frames (load_loop fs p v n items st) = data_frames st @ tables_read fs p (map snd items)
   \<and> failed_datasets (load_loop fs p v n items st)
       = failed_datasets st @ failures_of fs p (map snd items)"
proof (induction items arbitrary: st)
  case Nil
  show ?case by (simp add: tables_read_Nil failures_of_Nil)
next
  case (Cons item items)
  obtain i name fname where item: "item = (i, name, fname)" by (cases item)
  have dist: "distinct (map (\<lambda>item. fst (snd item)) items)"
    and fresh_rest: "name \<notin> (\<lambda>item. fst (snd item)) ` set items"
    using Cons.prems(1) item by auto
  have fresh_now: "name \<notin> fst ` set (data_frames st)"
    and disj: "fst ` set (data_frames st) \<inter> (\<lambda>item. fst (snd item)) ` set items = {}"
    using Cons.prems(2) item by auto
  show ?case
  proof (cases "try_read fs p fname")
    case (Inl err)
    define st' where "st' = st\<lparr>failed_datasets := failed_datasets st @ [(name, failure_message err)],
                emitted := emitted st @ (if v then [failure_event name fname err] else [])\<rparr>"
    have step: "load_loop fs p v n (item # items) st = load_loop fs p v n items st'"
      using Inl by (simp add: item st'_def)
    have d': "data_frames st' = data_frames st"
      and f': "failed_datasets st' = failed_datasets st @ [(name, failure_message err)]"
      by (simp_all add: st'_def)
    have "fst ` set (data_frames st') \<inter> (\<lambda>item. fst (snd item)) ` set items = {}"
      using disj d' by simp
    from Cons.IH [OF dist this]
    show ?thesis unfolding step using Inl by (simp add: d' f' item tables_read_Cons failures_of_Cons)
  next
    case (Inr table)
    define st' where "st' = st\<lparr>data_frames := dict_set name table (data_frames st),
                emitted := emitted st @ (if v then [Loaded name i n (len_df table)] else [])\<rparr>"
    have step: "load_loop fs p v n (item # items) st = load_loop fs p v n items st'"
      using Inr by (simp add: item st'_def)
    have d': "data_frames st' = data_frames st @ [(name, table)]"
      and f': "failed_datasets st' = failed_datasets st"
      by (simp_all add: st'_def dict_set_fresh [OF fresh_now])
    have "fst ` set (data_frames st') \<inter> (\<lambda>item. fst (snd item)) ` set items = {}"
      using disj fresh_rest unfolding d' by auto
    from Cons.IH [OF dist this]
    show ?thesis unfolding step using Inr by (simp add: d' f' item tables_read_Cons failures_of_Cons)
  qed
qed

lemma read_lengths: "length (tables_read fs p ds) + length (failures_of fs p ds) = length ds"
proof (induction ds)
  case Nil
  show ?case by (simp add: tables_read_Nil failures_of_Nil)
next
  case (Cons d ds)
  then show ?case by (cases "try_read fs p (snd d)") (simp_all add: tables_read_Cons failures_of_Cons)
qed

lemma try_read_cases:
  "try_read fs p (snd d) =
     (if present fs p d then read_csv fs (path_join p (snd d))
      else Inl (FileNotFound (''File not found: '' @ snd d)))"
  by (simp add: try_read_def present_def Let_def)

lemma all_readable:
  assumes "\<forall>d \<in> set ds. present fs p d \<longrightarrow> readable fs p d"
  shows "map fst (tables_read fs p ds) = map fst (filter (present fs p) ds)
     \<and> failures_of fs p ds
         = map (\<lambda>d. (fst d, ''File not found: '' @ snd d)) (filter (\<lambda>d. \<not> present fs p d) ds)"
  using assms
proof (induction ds)
  case Nil
  show ?case by (simp add: tables_read_Nil failures_of_Nil)
next
  case (Cons d ds)
  have ih: "map fst (tables_read fs p ds) = map fst (filter (present fs p) ds)
     \<and> failures_of fs p ds
         = map (\<lambda>d. (fst d, ''File not found: '' @ snd d)) (filter (\<lambda>d. \<not> present fs p d) ds)"
    using Cons by simp
  show ?case
  proof (cases "present fs p d")
    case True
    then obtain table where "read_csv fs (path_join p (snd d)) = Inr table"
      using Cons.prems by (auto simp: readable_def)
    then have "try_read fs p (snd d) = Inr table" using True by (simp add: try_read_cases)
    then show ?thesis using ih True by (simp add: tables_read_Cons failures_of_Cons)
  next
    case False
    then have "try_read fs p (snd d) = Inl (FileNotFound (''File not found: '' @ snd d))"
      by (simp add: try_read_cases)
    then show ?thesis using ih False by (simp add: tables_read_Cons failures_of_Cons)
  qed
qed

lemma distinct_dataset_names: "distinct (map fst datasets)"
  by (simp add: datasets_def)

lemma length_datasets: "length datasets = 9"
  by (simp add: datasets_def)

lemma load_run_exists:
  assumes "path_exists fs p"
  shows "\<exists>st. load_run fs p v = Inr st
     \<and> data_frames st = tables_read fs p datasets
     \<and> failed_datasets st = failures_of fs p datasets"
proof -
  define items where "items = zip [1 ..< Suc (length datasets)] datasets"
  define st0 where "st0 = \<lparr>data_frames = [], failed_datasets = [], emitted = []\<rparr>"
  define st where "st = load_loop fs p v (length datasets) items st0"
  have sn: "map snd items = datasets" unfolding items_def by (rule map_snd_zip) (simp only: length_upt diff_Suc_1)
  have "map (\<lambda>item. fst (snd item)) items = map fst (map snd items)" by simp
  then have dist: "distinct (map (\<lambda>item. fst (snd item)) items)"
    using distinct_dataset_names sn by simp
  have "fst ` set (data_frames st0) \<inter> (\<lambda>item. fst (snd item)) ` set items = {}"
    by (simp add: st0_def)
  from load_loop_state [OF dist this, of fs p v "length datasets"]
  have d: "data_frames st = tables_read fs p datasets"
    and f: "failed_datasets st = failures_of fs p datasets"
    by (simp_all add: st_def sn st0_def)
  define final where "final = st\<lparr>emitted := emitted st @
                   (if v
                    then SummaryLoaded (length (data_frames st)) (length datasets)
                         # (if failed_datasets st \<noteq> [] then [SummaryFailed (failed_datasets st)]
                            else [])
                    else [])\<rparr>"
  have "load_run fs p v = Inr final"
    using assms by (simp add: load_run_def Let_def final_def st_def items_def st0_def)
  moreover have "data_frames final = tables_read fs p datasets"
    and "failed_datasets final = failures_of fs p datasets"
    using d f by (simp_all add: final_def)
  ultimately show ?thesis by blast
qed

lemma tables_read_mem:
  "(name, table) \<in> set (tables_read fs p ds) \<Longrightarrow>
   \<exists>fname. (name, fname) \<in> set ds \<and> try_read fs p fname = Inr table"
proof (induction ds)
  case Nil
  then show ?case by (simp add: tables_read_Nil)
next
  case (Cons d ds)
  show ?case
  proof (cases "try_read fs p (snd d)")
    case (Inl err)
    then have "(name, table) \<in> set (tables_read fs p ds)"
      using Cons.prems by (simp add: tables_read_Cons)
    then show ?thesis using Cons.IH by auto
  next
    case (Inr t)
    then have "(name, table) = (fst d, t) \<or> (name, table) \<in> set (tables_read fs p ds)"
      using Cons.prems by (simp add: tables_read_Cons)
    then show ?thesis
    proof
      assume "(name, table) = (fst d, t)"
      then have "(name, snd d) \<in> set (d # ds)" and "try_read fs p (snd d) = Inr table"
        using Inr by auto
      then show ?thesis by blast
    next
      assume "(name, table) \<in> set (tables_read fs p ds)"
      then show ?thesis using Cons.IH by auto
    qed
  qed
qed

text \<open>
  Claim C4, as the code has it. \<open>load_data\<close> raises exactly when the path does not exist
  (\<open>FileNotFoundError\<close>). When the path exists it returns the dictionary of the tables read,
  in the order of the expected files, and no failure of a single file escapes; the failures
  are collected, as pairs of name and message, in a list local to the call (it is printed in
  the verbose summary and not returned). The tables and the failures are nine together. With
  seven of the nine files present and readable, the dictionary has those seven tables and the
  local list has exactly two entries, in order, each with the message "File not found".
\<close>

theorem load_data_collects_failures:
  "((\<exists>e. load_data fs p v = Inl e) \<longleftrightarrow> \<not> path_exists fs p)
   \<and> (\<not> path_exists fs p \<longrightarrow>
         load_data fs p v = Inl (FileNotFoundError (''Data path not found: '' @ p)))
   \<and> (path_exists fs p \<longrightarrow>
         load_data fs p v = Inr (tables_read fs p datasets)
       \<and> recorded_failures fs p v = failures_of fs p datasets
       \<and> length (tables_read fs p datasets) + length (failures_of fs p datasets) = 9
       \<and> (\<forall>name table. (name, table) \<in> set (tables_read fs p datasets) \<longrightarrow>
             (\<exists>fname. (name, fname) \<in> set datasets
                \<and> read_csv fs (path_join p fname) = Inr table))
       \<and> (length (filter (present fs p) datasets) = 7
            \<and> (\<forall>d \<in> set datasets. present fs p d \<longrightarrow> readable fs p d) \<longrightarrow>
              map fst (tables_read fs p datasets) = map fst (filter (present fs p) datasets)
            \<and> length (tables_read fs p datasets) = 7
            \<and> failures_of fs p datasets
                = map (\<lambda>d. (fst d, ''File not found: '' @ snd d))
                    (filter (\<lambda>d. \<not> present fs p d) datasets)
            \<and> length (failures_of fs p datasets) = 2))"
proof -
  have absent: "load_data fs p v = Inl (FileNotFoundError (''Data path not found: '' @ p))"
    if "\<not> path_exists fs p"
    using that by (simp add: load_data_def load_run_def)
  have there: "load_data fs p v = Inr (tables_read fs p datasets)
       \<and> recorded_failures fs p v = failures_of fs p datasets"
    if pe: "path_exists fs p"
  proof -
    obtain st where "load_run fs p v = Inr st" "data_frames st = tables_read fs p datasets"
      "failed_datasets st = failures_of fs p datasets"
      using load_run_exists [OF pe, of v] by blast
    then show ?thesis by (simp add: load_data_def recorded_failures_def)
  qed
  have iff: "(\<exists>e. load_data fs p v = Inl e) \<longleftrightarrow> \<not> path_exists fs p"
    using absent there by (cases "path_exists fs p") auto
  have total: "length (tables_read fs p datasets) + length (failures_of fs p datasets) = 9"
    using read_lengths [of fs p datasets] by (simp add: length_datasets)
  have tabs: "\<exists>fname. (name, fname) \<in> set datasets \<and> read_csv fs (path_join p fname) = Inr table"
    if mem: "(name, table) \<in> set (tables_read fs p datasets)" for name table
  proof -
    obtain fname where m: "(name, fname) \<in> set datasets" and r: "try_read fs p fname = Inr table"
      using tables_read_mem [OF mem] by blast
    have "read_csv fs (path_join p fname) = Inr table"
      using r by (simp add: try_read_def Let_def split: if_splits)
    then show ?thesis using m by blast
  qed
  have seven: "map fst (tables_read fs p datasets) = map fst (filter (present fs p) datasets)
            \<and> length (tables_read fs p datasets) = 7
            \<and> failures_of fs p datasets
                = map (\<lambda>d. (fst d, ''File not found: '' @ snd d))
                    (filter (\<lambda>d. \<not> present fs p d) datasets)
            \<and> length (failures_of fs p datasets) = 2"
    if h: "length (filter (present fs p) datasets) = 7
            \<and> (\<forall>d \<in> set datasets. present fs p d \<longrightarrow> readable fs p d)"
  proof -
    note r = all_readable [OF h [THEN conjunct2]]
    have "length (map fst (tables_read fs p datasets)) = 7"
      using r h by simp
    then have l7: "length (tables_read fs p datasets) = 7" by simp
    then have l2: "length (failures_of fs p datasets) = 2" using total by simp
    show ?thesis using r l7 l2 by blast
  qed
  show ?thesis using iff absent there total tabs seven by blast
qed

theorem load_data_collects_failures_witness:
  "path_exists fs_two_missing ''data''
   \<and> length (filter (present fs_two_missing ''data'') datasets) = 7
   \<and> load_data fs_two_missing ''data'' True = Inr (tables_read fs_two_missing ''data'' datasets)
   \<and> length (tables_read fs_two_missing ''data'' datasets) = 7
   \<and> recorded_failures fs_two_missing ''data'' True
       = [(''geolocation'', ''File not found: olist_geolocation_dataset.csv''),
          (''sellers'', ''File not found: olist_sellers_dataset.csv'')]
   \<and> length (failures_of fs_two_missing ''data'' datasets) = 2
   \<and> \<not> path_exists fs_two_missing ''elsewhere''
   \<and> load_data fs_two_missing ''elsewhere'' True
       = Inl (FileNotFoundError ''Data path not found: elsewhere'')"
proof -
  have h1: "path_exists fs_two_missing ''data''" by (simp add: fs_two_missing_def)
  have h2: "length (filter (present fs_two_missing ''data'') datasets) = 7" by code_simp
  have h3: "\<forall>d \<in> set datasets. present fs_two_missing ''data'' d \<longrightarrow> readable fs_two_missing ''data'' d"
    by (simp add: readable_def fs_two_missing_def)
  have h4: "\<not> path_exists fs_two_missing ''elsewhere''" by code_simp
  note th = load_data_collects_failures [of fs_two_missing "''data''" True]
  note there = th [THEN conjunct2, THEN conjunct2, THEN mp, OF h1]
  note seven = there [THEN conjunct2, THEN conjunct2, THEN conjunct2, THEN conjunct2, THEN mp,
      OF conjI [OF h2 h3]]
  have f: "recorded_failures fs_two_missing ''data'' True
       = [(''geolocation'', ''File not found: olist_geolocation_dataset.csv''),
          (''sellers'', ''File not found: olist_sellers_dataset.csv'')]"
    by code_simp
  have e: "load_data fs_two_missing ''elsewhere'' True
       = Inl (FileNotFoundError ''Data path not found: elsewhere'')"
    using load_data_collects_failures [of fs_two_missing "''elsewhere''" True,
        THEN conjunct2, THEN conjunct1, THEN mp, OF h4] by simp
  show ?thesis
    using h1 h2 h4 f e there [THEN conjunct1] seven [THEN conjunct2, THEN conjunct1]
      seven [THEN conjunct2, THEN conjunct2, THEN conjunct2]
    by blast
qed

text \<open>
  Claim C4 as stated fails: the returned value holds no list of failures. On the directory
  with two files missing \<open>load_data\<close> returns the dictionary of seven tables, the very value
  it returns on the directory where the same two files are present and empty, although the
  two runs record different failures.
\<close>

theorem returned_value_hides_failures:
  "load_data fs_two_missing ''data'' False = load_data fs_two_empty ''data'' False
   \<and> map_sum id (map fst) (load_data fs_two_missing ''data'' False)
       = Inr [''customers'', ''order_items'', ''orders'', ''order_payments'', ''order_reviews'',
              ''products'', ''product_category_name_translation'']
   \<and> recorded_failures fs_two_missing ''data'' False
       = [(''geolocation'', ''File not found: olist_geolocation_dataset.csv''),
          (''sellers'', ''File not found: olist_sellers_dataset.csv'')]
   \<and> recorded_failures fs_two_empty ''data'' False
       = [(''geolocation'', ''Empty CSV file''), (''sellers'', ''Empty CSV file'')]"
  by code_simp

section \<open>Properties of the univariate sections\<close>
































text \<open>
  On a table without rows the numerical section does not complete: the percentage of outliers
  divides by the row count.
\<close>

lemma zero_rows_numerical_section_raises:
  "numerical_cols (EDA_init sample_parse empty_table None 10 100) = [''x'']
   \<and> univariate_numerical (EDA_init sample_parse empty_table None 10 100) = Inl ZeroDivisionError"
  by code_simp


end
